theory Spec2Isabelle
  imports Complex_Main
begin

section \<open>The retention simulator (retention_simulator.py)\<close>

text \<open>
  The script reads its inputs from widgets into module-level variables, builds a
  drop-off table, simulates three scenarios and derives financial figures from each
  trajectory. The module-level variables become the record \<open>params\<close>, passed to
  every function that reads them.

  Numbers: the integer widgets (\<open>initial_learners\<close>, \<open>duration\<close>,
  \<open>dropoff_month3\<close>, \<open>incentive_month\<close>, \<open>retention_boost\<close>) are Python
  ints; \<open>duration\<close> only ever serves as a count (\<open>range\<close>, \<open>linspace\<close>) and is a
  natural number here. The float quantities are modelled as exact reals: rounding of
  binary floating point is not part of the model, and neither is NaN.

  The drop-off table is a data frame with a default (0-based, contiguous) row index, of
  which the simulation reads only the column \<open>dropoff_rate\<close>: it is the list of that
  column's values, so that \<open>df.loc[i, 'dropoff_rate']\<close> is \<open>df ! i\<close> and \<open>len(df)\<close>
  is \<open>length df\<close>.
\<close>

subsection \<open>Inputs\<close>

record params =
  initial_learners :: int
  duration :: nat
  dropoff_month3 :: int
  revenue_per_learner :: real
  incentive_cost :: real
  incentive_month :: int
  retention_boost :: int

datatype py_error = IndexError

type_synonym schedule = "real list"

subsection \<open>load_data\<close>

text \<open>
  \<^verbatim>\<open>np.linspace(start, stop, num)\<close>: \<open>num\<close> evenly spaced points from \<open>start\<close> to
  \<open>stop\<close> inclusive; a single point is \<open>start\<close>, no point is the empty array.
\<close>

definition linspace :: "real \<Rightarrow> real \<Rightarrow> nat \<Rightarrow> real list" where
  "linspace start stop num =
     (if num = 1 then [start]
      else map (\<lambda>i. start + real i * ((stop - start) / real (num - 1))) [0..<num])"

text \<open>
  \<^verbatim>\<open>dropoff[2] = dropoff_month3\<close> on a numpy array: an index beyond the array raises
  IndexError.
\<close>

definition set_item :: "real list \<Rightarrow> nat \<Rightarrow> real \<Rightarrow> py_error + real list" where
  "set_item xs i v = (if i < length xs then Inr (xs[i := v]) else Inl IndexError)"

text \<open>
  \<open>load_data\<close>: the uploaded table when there is one (its parsing is outside the
  model: the argument is the table already read), the synthetic table otherwise.
\<close>

definition load_data :: "params \<Rightarrow> schedule option \<Rightarrow> py_error + schedule" where
  "load_data p uploaded_file =
     (case uploaded_file of
        Some df \<Rightarrow> Inr df
      | None \<Rightarrow> set_item (linspace 10 50 (duration p)) 2 (of_int (dropoff_month3 p)))"

subsection \<open>simulate_scenario\<close>

text \<open>
  \<^verbatim>\<open>df['dropoff_rate'].mean()\<close>. For an empty column pandas returns NaN, which the
  reals do not have: statements that depend on the value of the mean assume a
  non-empty table.
\<close>

definition mean_rate :: "schedule \<Rightarrow> real" where
  "mean_rate df = sum_list df / real (length df)"

text \<open>Line 39: the rate read for loop index \<open>i\<close>.\<close>

definition rate_for :: "schedule \<Rightarrow> nat \<Rightarrow> real" where
  "rate_for df i = (if i < length df then df ! i else mean_rate df)"

text \<open>Lines 39 to 41: the rate after the incentive effect, when it applies.\<close>

definition effective_rate :: "params \<Rightarrow> schedule \<Rightarrow> bool \<Rightarrow> nat \<Rightarrow> real" where
  "effective_rate p df improved i =
     (let rate = rate_for df i in
      if improved \<and> int i + 1 = incentive_month p
      then rate * (1 - of_int (retention_boost p) / 100)
      else rate)"

text \<open>
  One iteration of the loop body: \<open>learners\<close> is never empty, so \<open>learners[-1]\<close> is
  \<open>last learners\<close>.
\<close>

definition simulate_step :: "params \<Rightarrow> schedule \<Rightarrow> bool \<Rightarrow> real list \<Rightarrow> nat \<Rightarrow> real list" where
  "simulate_step p df improved learners i =
     learners @ [last learners * (1 - effective_rate p df improved i / 100)]"

text \<open>The loop run over \<open>range(1, n)\<close>, from the one-element list.\<close>

definition simulate_upto :: "params \<Rightarrow> schedule \<Rightarrow> bool \<Rightarrow> nat \<Rightarrow> real list" where
  "simulate_upto p df improved n =
     foldl (simulate_step p df improved) [of_int (initial_learners p)] [1..<n]"

definition simulate_scenario :: "params \<Rightarrow> schedule \<Rightarrow> bool \<Rightarrow> real list" where
  "simulate_scenario p df improved = simulate_upto p df improved (duration p)"

subsection \<open>The loop with its lookups recorded\<close>

text \<open>
  Line 39 reads the rate from one of two places: row \<open>i\<close> of the table when
  \<open>i < len(df)\<close>, the mean of the column otherwise. \<open>simulate_traced\<close> is the loop
  of \<open>simulate_scenario\<close> once more, returning beside the list of learners the place
  each iteration read its rate from, in the order of the iterations.
\<close>

datatype rate_source = FromRow nat | FromMean

definition rate_source_for :: "schedule \<Rightarrow> nat \<Rightarrow> rate_source" where
  "rate_source_for df i = (if i < length df then FromRow i else FromMean)"

definition rate_of_source :: "schedule \<Rightarrow> rate_source \<Rightarrow> real" where
  "rate_of_source df s = (case s of FromRow i \<Rightarrow> df ! i | FromMean \<Rightarrow> mean_rate df)"

definition traced_step ::
  "params \<Rightarrow> schedule \<Rightarrow> bool \<Rightarrow> real list \<times> rate_source list \<Rightarrow> nat
   \<Rightarrow> real list \<times> rate_source list" where
  "traced_step p df improved st i =
     (let src = rate_source_for df i;
          rate = rate_of_source df src;
          rate' = (if improved \<and> int i + 1 = incentive_month p
                   then rate * (1 - of_int (retention_boost p) / 100)
                   else rate)
      in (fst st @ [last (fst st) * (1 - rate' / 100)], snd st @ [src]))"

definition simulate_traced ::
  "params \<Rightarrow> schedule \<Rightarrow> bool \<Rightarrow> real list \<times> rate_source list" where
  "simulate_traced p df improved =
     foldl (traced_step p df improved) ([of_int (initial_learners p)], []) [1..<duration p]"

subsection \<open>scenarios\<close>

text \<open>The dictionary literal, in insertion order.\<close>

definition scenarios :: "params \<Rightarrow> schedule \<Rightarrow> (string \<times> real list) list" where
  "scenarios p df =
     [(''Baseline (no incentive)'', simulate_scenario p df False),
      (''Incentive, no effect'', simulate_scenario p df False),
      (''Incentive, improved retention'', simulate_scenario p df True)]"

subsection \<open>calculate_metrics\<close>

text \<open>
  Indexing a Python list: a negative index counts from the end, an index outside the
  list raises IndexError.
\<close>

definition list_get :: "real list \<Rightarrow> int \<Rightarrow> py_error + real" where
  "list_get xs i =
     (if 0 \<le> i \<and> i < int (length xs) then Inr (xs ! nat i)
      else if i < 0 \<and> - int (length xs) \<le> i then Inr (xs ! nat (int (length xs) + i))
      else Inl IndexError)"

record metric =
  learners :: "real list"
  gross :: real
  cost :: real
  net :: real

definition gross_revenue :: "params \<Rightarrow> real list \<Rightarrow> real" where
  "gross_revenue p ls = sum_list (map (\<lambda>l. l * revenue_per_learner p) ls)"

text \<open>Line 55: the conditional expression, with the indexing it guards.\<close>

definition incentive_total :: "params \<Rightarrow> real list \<Rightarrow> py_error + real" where
  "incentive_total p ls =
     (if 1 \<le> incentive_month p \<and> incentive_month p \<le> int (length ls)
      then (case list_get ls (incentive_month p - 1) of
              Inl e \<Rightarrow> Inl e
            | Inr l \<Rightarrow> Inr (l * incentive_cost p))
      else Inr 0)"

definition calculate_metrics :: "params \<Rightarrow> real list \<Rightarrow> py_error + real \<times> real \<times> real" where
  "calculate_metrics p ls =
     (let g = gross_revenue p ls in
      case incentive_total p ls of
        Inl e \<Rightarrow> Inl e
      | Inr c \<Rightarrow> Inr (g, c, g - c))"

text \<open>
  The loop filling \<open>metrics\<close>: every scenario, whatever its key, goes through
  \<open>calculate_metrics\<close>.
\<close>

fun metrics :: "params \<Rightarrow> (string \<times> real list) list \<Rightarrow> py_error + (string \<times> metric) list" where
  "metrics p [] = Inr []"
| "metrics p ((key, ls) # rest) =
     (case calculate_metrics p ls of
        Inl e \<Rightarrow> Inl e
      | Inr (g, c, n) \<Rightarrow>
          (case metrics p rest of
             Inl e \<Rightarrow> Inl e
           | Inr ms \<Rightarrow> Inr ((key, \<lparr>learners = ls, gross = g, cost = c, net = n\<rparr>) # ms)))"

text \<open>The script from the table to the metrics; the first error ends it.\<close>

definition run :: "params \<Rightarrow> schedule option \<Rightarrow> py_error + (string \<times> metric) list" where
  "run p uploaded_file =
     (case load_data p uploaded_file of
        Inl e \<Rightarrow> Inl e
      | Inr df \<Rightarrow> metrics p (scenarios p df))"

subsection \<open>Input ranges\<close>

text \<open>
  The range the data model gives a drop-off table: at least one row, every rate a
  percentage. \<open>load_data\<close> does not check an uploaded table against it.
\<close>

definition valid_schedule :: "schedule \<Rightarrow> bool" where
  "valid_schedule df \<longleftrightarrow> df \<noteq> [] \<and> list_all (\<lambda>r. 0 \<le> r \<and> r \<le> 100) df"

subsection \<open>Concrete inputs\<close>

text \<open>The parameter set and the table of the worked example.\<close>

definition example_params :: params where
  "example_params =
     \<lparr>initial_learners = 1000, duration = 3, dropoff_month3 = 30,
      revenue_per_learner = 5, incentive_cost = 5, incentive_month = 3,
      retention_boost = 20\<rparr>"

definition example_schedule :: schedule where
  "example_schedule = [10, 10, 30]"

text \<open>A two-month program, the incentive in month 1.\<close>

definition short_params :: params where
  "short_params =
     \<lparr>initial_learners = 1000, duration = 2, dropoff_month3 = 30,
      revenue_per_learner = 5, incentive_cost = 5, incentive_month = 1,
      retention_boost = 20\<rparr>"

text \<open>The example over four months.\<close>

definition long_params :: params where
  "long_params = example_params\<lparr>duration := 4\<rparr>"

text \<open>The example with the incentive month beyond the program's three months.\<close>

definition late_params :: params where
  "late_params = example_params\<lparr>incentive_month := 4\<rparr>"

text \<open>The example with the incentive in the first month.\<close>

definition first_month_params :: params where
  "first_month_params = example_params\<lparr>incentive_month := 1\<rparr>"

text \<open>A table that stops after two rows.\<close>

definition partial_schedule :: schedule where
  "partial_schedule = [10, 30]"

section \<open>The simulation loop\<close>

text \<open>
  The loop appends one entry per index of \<open>range(1, n)\<close>. The list it returns has
  \<open>max 1 n\<close> entries, starts with the initial cohort, and each later entry is the
  entry before it times the factor of its index.
\<close>

lemma simulate_upto_base: "n \<le> 1 \<Longrightarrow> simulate_upto p df b n = [of_int (initial_learners p)]"
  by (simp add: simulate_upto_def)

lemma simulate_upto_Suc:
  "1 \<le> n \<Longrightarrow> simulate_upto p df b (Suc n) = simulate_step p df b (simulate_upto p df b n) n"
  by (simp add: simulate_upto_def)

lemma length_simulate_upto: "length (simulate_upto p df b n) = max 1 n"
proof (induction n)
  case 0
  show ?case by (simp add: simulate_upto_base)
next
  case (Suc n)
  show ?case
  proof (cases "n = 0")
    case True
    then show ?thesis by (simp add: simulate_upto_base)
  next
    case False
    then show ?thesis using Suc by (simp add: simulate_upto_Suc simulate_step_def)
  qed
qed

lemma simulate_upto_nth_0: "simulate_upto p df b n ! 0 = of_int (initial_learners p)"
proof (induction n)
  case 0
  show ?case by (simp add: simulate_upto_base)
next
  case (Suc n)
  show ?case
  proof (cases "n = 0")
    case True
    then show ?thesis by (simp add: simulate_upto_base)
  next
    case False
    then show ?thesis using Suc
      by (simp add: simulate_upto_Suc simulate_step_def nth_append length_simulate_upto)
  qed
qed

lemma simulate_upto_nth_step:
  "1 \<le> k \<Longrightarrow> k < n \<Longrightarrow>
   simulate_upto p df b n ! k =
   simulate_upto p df b n ! (k - 1) * (1 - effective_rate p df b k / 100)"
proof (induction n)
  case 0
  then show ?case by simp
next
  case (Suc n)
  then have n1: "1 \<le> n" by simp
  have len: "length (simulate_upto p df b n) = n"
    using n1 by (simp add: length_simulate_upto)
  have ne: "simulate_upto p df b n \<noteq> []"
    using len n1 by auto
  show ?case
  proof (cases "k < n")
    case True
    then have "k - 1 < n" by simp
    then show ?thesis using True Suc n1 len
      by (simp add: simulate_upto_Suc simulate_step_def nth_append)
  next
    case False
    then have kn: "k = n" using Suc.prems by simp
    show ?thesis using n1 len ne kn
      by (simp add: simulate_upto_Suc simulate_step_def nth_append last_conv_nth)
  qed
qed

lemma length_simulate_scenario:
  "1 \<le> duration p \<Longrightarrow> length (simulate_scenario p df b) = duration p"
  by (simp add: simulate_scenario_def length_simulate_upto)

section \<open>Rates within range\<close>

text \<open>
  On a valid table every rate the loop reads, from a row or from the mean, is a
  percentage; so is the rate after the incentive effect when the boost is one.
\<close>

lemma sum_list_bounds:
  "list_all (\<lambda>r. 0 \<le> r \<and> r \<le> 100) (df::real list) \<Longrightarrow>
   0 \<le> sum_list df \<and> sum_list df \<le> 100 * real (length df)"
  by (induction df) auto

lemma mean_rate_bounds:
  assumes "valid_schedule df"
  shows "0 \<le> mean_rate df \<and> mean_rate df \<le> 100"
proof -
  have pos: "0 < real (length df)"
    using assms by (simp add: valid_schedule_def)
  have b: "0 \<le> sum_list df \<and> sum_list df \<le> 100 * real (length df)"
    using assms by (simp add: valid_schedule_def sum_list_bounds)
  show ?thesis
    using pos b by (simp add: mean_rate_def divide_le_eq)
qed

lemma rate_for_bounds:
  assumes "valid_schedule df"
  shows "0 \<le> rate_for df i \<and> rate_for df i \<le> 100"
proof (cases "i < length df")
  case True
  then have "df ! i \<in> set df" by simp
  then have "0 \<le> df ! i \<and> df ! i \<le> 100"
    using assms by (simp add: valid_schedule_def list_all_iff)
  then show ?thesis using True by (simp add: rate_for_def)
next
  case False
  then show ?thesis using mean_rate_bounds [OF assms] by (simp add: rate_for_def)
qed

lemma effective_rate_baseline: "effective_rate p df False i = rate_for df i"
  by (simp add: effective_rate_def)

lemma effective_rate_bounds:
  assumes "valid_schedule df"
    and "b \<longrightarrow> 0 \<le> retention_boost p \<and> retention_boost p \<le> 100"
  shows "0 \<le> effective_rate p df b i \<and> effective_rate p df b i \<le> 100"
proof (cases "b \<and> int i + 1 = incentive_month p")
  case False
  then have "effective_rate p df b i = rate_for df i"
    by (auto simp add: effective_rate_def)
  then show ?thesis using rate_for_bounds [OF assms(1)] by simp
next
  case True
  define r where "r = rate_for df i"
  define c :: real where "c = 1 - of_int (retention_boost p) / 100"
  have r: "0 \<le> r \<and> r \<le> 100"
    using rate_for_bounds [OF assms(1)] by (simp add: r_def)
  have c: "0 \<le> c \<and> c \<le> 1"
    using True assms(2) by (simp add: c_def)
  have e: "effective_rate p df b i = r * c"
    using True by (simp add: effective_rate_def r_def c_def)
  have "r * c \<le> r * 1"
    using r c by (intro mult_left_mono) auto
  moreover have "0 \<le> r * c" using r c by simp
  ultimately show ?thesis using e r by simp
qed

lemma simulate_upto_nonneg:
  assumes "valid_schedule df"
    and "b \<longrightarrow> 0 \<le> retention_boost p \<and> retention_boost p \<le> 100"
    and "0 \<le> initial_learners p"
  shows "k < n \<Longrightarrow> 0 \<le> simulate_upto p df b n ! k"
proof (induction k)
  case 0
  then show ?case using assms(3) by (simp add: simulate_upto_nth_0)
next
  case (Suc k)
  have f: "0 \<le> 1 - effective_rate p df b (Suc k) / 100"
    using effective_rate_bounds [OF assms(1,2), of "Suc k"] by simp
  have "0 \<le> simulate_upto p df b n ! k" using Suc by simp
  then show ?case
    using f Suc.prems simulate_upto_nth_step [of "Suc k" n p df b] by simp
qed

lemma simulate_upto_decreasing:
  assumes "valid_schedule df"
    and "b \<longrightarrow> 0 \<le> retention_boost p \<and> retention_boost p \<le> 100"
    and "0 \<le> initial_learners p"
    and "1 \<le> k" and "k < n"
  shows "simulate_upto p df b n ! k \<le> simulate_upto p df b n ! (k - 1)"
proof -
  have e: "0 \<le> effective_rate p df b k"
    using effective_rate_bounds [OF assms(1,2), of k] by simp
  have prev: "0 \<le> simulate_upto p df b n ! (k - 1)"
    using assms(5) by (intro simulate_upto_nonneg [OF assms(1,2,3)]) simp
  have "simulate_upto p df b n ! (k - 1) * (1 - effective_rate p df b k / 100)
        \<le> simulate_upto p df b n ! (k - 1) * 1"
    using e prev by (intro mult_left_mono) auto
  then show ?thesis
    using simulate_upto_nth_step [OF assms(4,5), of p df b] by simp
qed

lemma effective_rate_improved_le:
  assumes "valid_schedule df" and "0 \<le> retention_boost p"
  shows "effective_rate p df True i \<le> effective_rate p df False i"
proof -
  have r: "0 \<le> rate_for df i" using rate_for_bounds [OF assms(1)] by simp
  have "rate_for df i * (1 - of_int (retention_boost p) / 100) \<le> rate_for df i * 1"
    using r assms(2) by (intro mult_left_mono) auto
  then show ?thesis by (simp add: effective_rate_def Let_def)
qed

lemma simulate_upto_improved_ge:
  assumes "valid_schedule df" and "0 \<le> retention_boost p" and "0 \<le> initial_learners p"
  shows "k < n \<Longrightarrow> simulate_upto p df False n ! k \<le> simulate_upto p df True n ! k"
proof (induction k)
  case 0
  then show ?case by (simp add: simulate_upto_nth_0)
next
  case (Suc k)
  have kn: "k < n" using Suc.prems by simp
  have ih: "simulate_upto p df False n ! k \<le> simulate_upto p df True n ! k"
    using Suc.IH kn by simp
  have base: "0 \<le> simulate_upto p df False n ! k"
    using kn by (intro simulate_upto_nonneg [OF assms(1) _ assms(3)]) simp_all
  have fb: "0 \<le> 1 - effective_rate p df False (Suc k) / 100"
    using rate_for_bounds [OF assms(1), of "Suc k"] by (simp add: effective_rate_baseline)
  have fi: "1 - effective_rate p df False (Suc k) / 100
            \<le> 1 - effective_rate p df True (Suc k) / 100"
    using effective_rate_improved_le [OF assms(1,2), of "Suc k"] by simp
  have "simulate_upto p df False n ! k * (1 - effective_rate p df False (Suc k) / 100)
        \<le> simulate_upto p df True n ! k * (1 - effective_rate p df True (Suc k) / 100)"
    using ih base fb fi by (intro mult_mono) auto
  then show ?case
    using simulate_upto_nth_step [of "Suc k" n p df False]
      simulate_upto_nth_step [of "Suc k" n p df True] Suc.prems by simp
qed

section \<open>The synthetic table\<close>

lemma length_linspace: "length (linspace a b n) = n"
  by (simp add: linspace_def)

lemma linspace_nth:
  "2 \<le> n \<Longrightarrow> i < n \<Longrightarrow> linspace a b n ! i = a + real i * ((b - a) / real (n - 1))"
  by (simp add: linspace_def)

lemma linspace_ends:
  "2 \<le> n \<Longrightarrow> linspace a b n ! 0 = a \<and> linspace a b n ! (n - 1) = b"
  by (simp add: linspace_nth)

lemma load_data_short: "duration p < 3 \<Longrightarrow> load_data p None = Inl IndexError"
  by (simp add: load_data_def set_item_def length_linspace)

lemma load_data_long:
  "3 \<le> duration p \<Longrightarrow>
   load_data p None = Inr ((linspace 10 50 (duration p))[2 := of_int (dropoff_month3 p)])"
  by (simp add: load_data_def set_item_def length_linspace)

section \<open>The worked example\<close>

lemma upt_1_3: "[Suc 0..<3] = [1, 2::nat]"
  by (simp add: upt_rec)

lemma upt_1_4: "[Suc 0..<4] = [1, 2, 3::nat]"
  by (simp add: upt_rec)

lemma example_baseline:
  "simulate_scenario example_params example_schedule False = [1000, 900, 630]"
  by (simp add: simulate_scenario_def simulate_upto_def simulate_step_def
      effective_rate_def rate_for_def example_params_def example_schedule_def upt_1_3)

lemma example_improved:
  "simulate_scenario example_params example_schedule True = [1000, 900, 684]"
  by (simp add: simulate_scenario_def simulate_upto_def simulate_step_def
      effective_rate_def rate_for_def example_params_def example_schedule_def upt_1_3)

lemmas metric_defs = calculate_metrics_def incentive_total_def gross_revenue_def list_get_def

lemma example_baseline_metrics:
  "calculate_metrics example_params [1000, 900, 630] = Inr (12650, 3150, 9500)"
  by (simp add: metric_defs example_params_def)

lemma example_improved_metrics:
  "calculate_metrics example_params [1000, 900, 684] = Inr (12920, 3420, 9500)"
  by (simp add: metric_defs example_params_def)

lemma example_boosted_rate: "effective_rate example_params example_schedule True 2 = 24"
  by (simp add: example_params_def example_schedule_def effective_rate_def rate_for_def)

lemma example_baseline_gross: "gross_revenue example_params [1000, 900, 630] = 12650"
  by (simp add: gross_revenue_def example_params_def)

lemma example_valid: "valid_schedule example_schedule"
  by (simp add: valid_schedule_def example_schedule_def)

lemma unvalidated_baseline:
  "simulate_scenario example_params [10, 150, 30] False = [1000, - 500, - 350]"
  by (simp add: simulate_scenario_def simulate_upto_def simulate_step_def
      effective_rate_def rate_for_def example_params_def upt_1_3)

lemma unvalidated_long_baseline:
  "simulate_scenario long_params [10, 10, 30, 150] False = [1000, 900, 630, - 315]"
  by (simp add: simulate_scenario_def simulate_upto_def simulate_step_def
      effective_rate_def rate_for_def example_params_def long_params_def upt_1_4)

lemma unvalidated_long_improved:
  "simulate_scenario long_params [10, 10, 30, 150] True = [1000, 900, 684, - 342]"
  by (simp add: simulate_scenario_def simulate_upto_def simulate_step_def
      effective_rate_def rate_for_def example_params_def long_params_def upt_1_4)

section \<open>Indexing the trajectory; the incentive in month 1\<close>

lemma list_get_in_range:
  "0 \<le> i \<Longrightarrow> i < int (length xs) \<Longrightarrow> list_get xs i = Inr (xs ! nat i)"
  by (simp add: list_get_def)

lemma effective_rate_month1:
  "incentive_month p = 1 \<Longrightarrow> 1 \<le> i \<Longrightarrow>
   effective_rate p df True i = effective_rate p df False i"
  by (simp add: effective_rate_def)

lemma simulate_upto_month1:
  "incentive_month p = 1 \<Longrightarrow> simulate_upto p df True n = simulate_upto p df False n"
  unfolding simulate_upto_def
  by (rule foldl_cong) (simp_all add: simulate_step_def effective_rate_month1)

section \<open>The recorded lookups; the trajectory in closed form\<close>

text \<open>
  The traced loop returns the trajectory of \<open>simulate_scenario\<close> and one lookup per
  loop index. Entry \<open>k\<close> of the trajectory is the initial cohort times the factors of
  the loop indices 1 to \<open>k\<close>.
\<close>

lemma rate_of_source_for: "rate_of_source df (rate_source_for df i) = rate_for df i"
  by (simp add: rate_of_source_def rate_source_for_def rate_for_def)

lemma traced_step_eq:
  "traced_step p df b (ls, tr) i = (simulate_step p df b ls i, tr @ [rate_source_for df i])"
  by (simp add: traced_step_def simulate_step_def effective_rate_def Let_def rate_of_source_for)

lemma foldl_traced_step:
  "foldl (traced_step p df b) (ls, tr) xs
   = (foldl (simulate_step p df b) ls xs, tr @ map (rate_source_for df) xs)"
  by (induction xs arbitrary: ls tr) (simp_all add: traced_step_eq)

lemma fst_simulate_traced: "fst (simulate_traced p df b) = simulate_scenario p df b"
  by (simp add: simulate_traced_def foldl_traced_step simulate_scenario_def simulate_upto_def)

lemma snd_simulate_traced:
  "snd (simulate_traced p df b) = map (rate_source_for df) [1..<duration p]"
  by (simp add: simulate_traced_def foldl_traced_step)

lemma snd_simulate_traced_nth:
  "1 \<le> i \<Longrightarrow> i < duration p \<Longrightarrow>
   snd (simulate_traced p df b) ! (i - 1) = rate_source_for df i"
  by (simp add: snd_simulate_traced)

lemma snd_simulate_traced_covered:
  "duration p \<le> length df \<Longrightarrow>
   snd (simulate_traced p df b) = map FromRow [1..<duration p]"
  by (simp add: snd_simulate_traced rate_source_for_def)

lemma simulate_upto_closed:
  "k < n \<Longrightarrow>
   simulate_upto p df b n ! k
   = of_int (initial_learners p)
     * prod_list (map (\<lambda>j. 1 - effective_rate p df b j / 100) [1..<Suc k])"
proof (induction k)
  case 0
  then show ?case by (simp add: simulate_upto_nth_0)
next
  case (Suc k)
  have "simulate_upto p df b n ! Suc k
        = simulate_upto p df b n ! k * (1 - effective_rate p df b (Suc k) / 100)"
    using simulate_upto_nth_step [of "Suc k" n p df b] Suc.prems by simp
  moreover have "simulate_upto p df b n ! k
        = of_int (initial_learners p)
          * prod_list (map (\<lambda>j. 1 - effective_rate p df b j / 100) [1..<Suc k])"
    using Suc by simp
  ultimately show ?case by simp
qed

lemma simulate_scenario_closed:
  "k < duration p \<Longrightarrow>
   simulate_scenario p df b ! k
   = of_int (initial_learners p)
     * prod_list (map (\<lambda>j. 1 - effective_rate p df b j / 100) [1..<Suc k])"
  by (simp add: simulate_scenario_def simulate_upto_closed)

lemma load_data_length: "load_data p None = Inr df' \<Longrightarrow> length df' = duration p"
  by (auto simp add: load_data_def set_item_def length_linspace split: if_splits)

lemma example_synthetic: "load_data example_params None = Inr [10, 30, 30]"
  by (simp add: load_data_def set_item_def linspace_def example_params_def upt_rec)

section \<open>The claims\<close>

text \<open>
  C1. The claim: the Baseline scenario is charged no incentive cost (its incentive total
  is 0 and its net revenue is its gross revenue), and differs from "Incentive, no
  effect" in that. The script computes the figures of every scenario with the same
  \<open>calculate_metrics\<close>, whatever its key: on the worked example the entry under
  "Baseline (no incentive)" has the cost 630 * 5 = 3150 and the net revenue 9500, where
  the claim has 0 and 12650, and it equals the entry under "Incentive, no effect".
\<close>

theorem baseline_charged_incentive_cost:
  "run example_params (Some example_schedule) =
     Inr [(''Baseline (no incentive)'',
           \<lparr>learners = [1000, 900, 630], gross = 12650, cost = 3150, net = 9500\<rparr>),
          (''Incentive, no effect'',
           \<lparr>learners = [1000, 900, 630], gross = 12650, cost = 3150, net = 9500\<rparr>),
          (''Incentive, improved retention'',
           \<lparr>learners = [1000, 900, 684], gross = 12920, cost = 3420, net = 9500\<rparr>)]"
  by (simp add: run_def load_data_def scenarios_def example_baseline example_improved
      example_baseline_metrics example_improved_metrics)

text \<open>
  C2. For 1000 initial learners, three months, the rates [10, 10, 30], the incentive in
  month 3, a boost of 20, a revenue of 5 and an incentive cost of 5: the baseline
  trajectory is [1000, 900, 630] with the gross revenue 12650; with the incentive effect
  the rate of month 3 (loop index 2) is 24, the trajectory is [1000, 900, 684], and its
  figures are the gross revenue 12920, the incentive cost 3420 = 684 * 5, taken from
  this trajectory's own third entry, and the net revenue 9500.
\<close>

theorem worked_example:
  "simulate_scenario example_params example_schedule False = [1000, 900, 630]
   \<and> gross_revenue example_params (simulate_scenario example_params example_schedule False)
       = 12650
   \<and> effective_rate example_params example_schedule True 2 = 24
   \<and> simulate_scenario example_params example_schedule True = [1000, 900, 684]
   \<and> calculate_metrics example_params
        (simulate_scenario example_params example_schedule True)
       = Inr (12920, 3420, 9500)"
  by (simp add: example_baseline example_improved example_improved_metrics
      example_boosted_rate example_baseline_gross)

text \<open>
  C3. The claim: with no uploaded table, \<open>load_data\<close> returns a synthetic table for
  every positive duration, durations 1 and 2 included, and raises nothing. For a
  duration of 1 or 2 the array of \<open>linspace\<close> has one or two entries, the assignment
  to index 2 raises IndexError, and the script ends there. (From a duration of 3 on the
  table is returned: \<open>load_data_long\<close>, \<open>linspace_nth\<close>.)
\<close>

theorem load_data_short_duration_raises:
  "load_data short_params None = Inl IndexError
   \<and> load_data (short_params\<lparr>duration := 1\<rparr>) None = Inl IndexError
   \<and> run short_params None = Inl IndexError"
  by (simp add: run_def load_data_short short_params_def)

text \<open>
  C4. The claim: for all tables and all months, every entry of the trajectory is
  non-negative and no entry exceeds the one before it. An uploaded table is used as it
  is read: with a rate of 150 the second entry is negative and the third is above it.
\<close>

theorem trajectory_negative_counterexample:
  "simulate_scenario example_params [10, 150, 30] False ! 1 < 0
   \<and> simulate_scenario example_params [10, 150, 30] False ! 1
      < simulate_scenario example_params [10, 150, 30] False ! 2"
  by (simp add: unvalidated_baseline)

text \<open>
  C4, as amended. For a valid table (non-empty, every rate between 0 and 100), a
  non-negative initial cohort and, where the incentive effect applies, a boost between
  0 and 100: every entry of the trajectory is non-negative, and every entry after the
  first is at most the entry before it.
\<close>

theorem trajectory_nonneg_nonincreasing:
  assumes "valid_schedule df"
    and "0 \<le> initial_learners p"
    and "improved \<longrightarrow> 0 \<le> retention_boost p \<and> retention_boost p \<le> 100"
    and "i < length (simulate_scenario p df improved)"
  shows "0 \<le> simulate_scenario p df improved ! i
         \<and> (1 \<le> i \<longrightarrow>
              simulate_scenario p df improved ! i
              \<le> simulate_scenario p df improved ! (i - 1))"
proof -
  have i: "i < max 1 (duration p)"
    using assms(4) by (simp add: simulate_scenario_def length_simulate_upto)
  have nn: "0 \<le> simulate_upto p df improved (duration p) ! i"
  proof (cases "i < duration p")
    case True
    then show ?thesis by (rule simulate_upto_nonneg [OF assms(1,3,2)])
  next
    case False
    then have "i = 0" using i by simp
    then show ?thesis using assms(2) by (simp add: simulate_upto_nth_0)
  qed
  have dec: "simulate_upto p df improved (duration p) ! i
             \<le> simulate_upto p df improved (duration p) ! (i - 1)" if "1 \<le> i"
  proof -
    have "i < duration p" using i that by simp
    then show ?thesis using that by (intro simulate_upto_decreasing [OF assms(1,3,2)])
  qed
  show ?thesis using nn dec by (simp add: simulate_scenario_def)
qed

theorem trajectory_nonneg_nonincreasing_witness:
  "valid_schedule example_schedule
   \<and> 0 \<le> initial_learners example_params
   \<and> 0 \<le> retention_boost example_params \<and> retention_boost example_params \<le> 100
   \<and> 2 < length (simulate_scenario example_params example_schedule True)
   \<and> (1::nat) \<le> 2
   \<and> 0 \<le> simulate_scenario example_params example_schedule True ! 2
   \<and> simulate_scenario example_params example_schedule True ! 2
      \<le> simulate_scenario example_params example_schedule True ! (2 - 1)"
proof -
  have h: "0 \<le> initial_learners example_params"
    "True \<longrightarrow> 0 \<le> retention_boost example_params \<and> retention_boost example_params \<le> 100"
    "2 < length (simulate_scenario example_params example_schedule True)"
    by (simp_all add: example_params_def length_simulate_scenario)
  show ?thesis
    using trajectory_nonneg_nonincreasing [OF example_valid h] h example_valid by simp
qed

text \<open>
  C5. For every table and every parameter set, the trajectories stored under "Baseline
  (no incentive)" and under "Incentive, no effect" are the same list: the simulation
  without the incentive effect.
\<close>

theorem scenarios_baseline_no_effect_identical:
  "map_of (scenarios p df) ''Baseline (no incentive)'' = Some (simulate_scenario p df False)
   \<and> map_of (scenarios p df) ''Incentive, no effect'' = Some (simulate_scenario p df False)
   \<and> map_of (scenarios p df) ''Baseline (no incentive)''
      = map_of (scenarios p df) ''Incentive, no effect''"
  by (simp add: scenarios_def)

text \<open>
  C6. The claim: whenever the boost is positive, the trajectory with the incentive
  effect is at least the baseline trajectory at every month from the incentive month
  on. With an uploaded table whose fourth rate is 150, the incentive in month 3 and a
  boost of 20, month 4 has - 342 with the effect and - 315 without.
\<close>

theorem improved_below_baseline_counterexample:
  "0 < retention_boost long_params \<and> incentive_month long_params \<le> 4
   \<and> simulate_scenario long_params [10, 10, 30, 150] True ! 3
      < simulate_scenario long_params [10, 10, 30, 150] False ! 3"
  by (simp add: unvalidated_long_baseline unvalidated_long_improved)
    (simp add: long_params_def example_params_def)

text \<open>
  C6, as amended. For a valid table, a non-negative initial cohort and a positive boost,
  the trajectory with the incentive effect is at least the baseline trajectory at every
  month from the incentive month on.
\<close>

theorem improved_ge_baseline:
  assumes "valid_schedule df"
    and "0 \<le> initial_learners p"
    and "0 < retention_boost p"
    and "k < length (simulate_scenario p df True)"
    and "incentive_month p \<le> int k + 1"
  shows "simulate_scenario p df False ! k \<le> simulate_scenario p df True ! k"
proof -
  have b: "0 \<le> retention_boost p" using assms(3) by simp
  have k: "k < max 1 (duration p)"
    using assms(4) by (simp add: simulate_scenario_def length_simulate_upto)
  show ?thesis
  proof (cases "k < duration p")
    case True
    then show ?thesis
      using simulate_upto_improved_ge [OF assms(1) b assms(2)]
      by (simp add: simulate_scenario_def)
  next
    case False
    then have "k = 0" using k by simp
    then show ?thesis by (simp add: simulate_scenario_def simulate_upto_nth_0)
  qed
qed

theorem improved_ge_baseline_witness:
  "valid_schedule example_schedule
   \<and> 0 \<le> initial_learners example_params
   \<and> 0 < retention_boost example_params
   \<and> 2 < length (simulate_scenario example_params example_schedule True)
   \<and> incentive_month example_params \<le> int 2 + 1
   \<and> simulate_scenario example_params example_schedule False ! 2
      \<le> simulate_scenario example_params example_schedule True ! 2"
proof -
  have h: "0 \<le> initial_learners example_params"
    "0 < retention_boost example_params"
    "2 < length (simulate_scenario example_params example_schedule True)"
    "incentive_month example_params \<le> int 2 + 1"
    by (simp_all add: example_params_def length_simulate_scenario)
  show ?thesis
    using improved_ge_baseline [OF example_valid h] h example_valid by simp
qed

text \<open>
  C7. If the incentive month is outside 1 .. the length of the trajectory, the incentive
  total is 0; otherwise it is the entry at the incentive month, counted from 1, times
  the incentive cost, and the index read is within the list. When the incentive month is
  beyond a positive duration, the incentive total of every simulated trajectory is 0.
  No case raises: \<open>incentive_total\<close> and \<open>calculate_metrics\<close> return a value.
\<close>

theorem incentive_total_lookup:
  "(incentive_month p < 1 \<or> int (length ls) < incentive_month p \<longrightarrow>
      incentive_total p ls = Inr 0)
   \<and> (1 \<le> incentive_month p \<and> incentive_month p \<le> int (length ls) \<longrightarrow>
        nat (incentive_month p - 1) < length ls
        \<and> incentive_total p ls = Inr (ls ! nat (incentive_month p - 1) * incentive_cost p))
   \<and> (1 \<le> duration p \<and> int (duration p) < incentive_month p \<longrightarrow>
        (\<forall>improved. incentive_total p (simulate_scenario p df improved) = Inr 0))
   \<and> (\<exists>c. incentive_total p ls = Inr c
            \<and> calculate_metrics p ls = Inr (gross_revenue p ls, c, gross_revenue p ls - c))"
proof -
  have out: "incentive_total p ls = Inr 0"
    if "incentive_month p < 1 \<or> int (length ls) < incentive_month p"
    using that by (auto simp add: incentive_total_def)
  have inside: "nat (incentive_month p - 1) < length ls
      \<and> incentive_total p ls = Inr (ls ! nat (incentive_month p - 1) * incentive_cost p)"
    if "1 \<le> incentive_month p \<and> incentive_month p \<le> int (length ls)"
  proof -
    have "nat (incentive_month p - 1) < length ls" using that by linarith
    then show ?thesis using that by (simp add: incentive_total_def list_get_in_range)
  qed
  have beyond: "incentive_total p (simulate_scenario p df improved) = Inr 0"
    if "1 \<le> duration p \<and> int (duration p) < incentive_month p" for improved
    using that by (simp add: incentive_total_def length_simulate_scenario)
  have "\<exists>c. incentive_total p ls = Inr c"
    using out inside by (cases "1 \<le> incentive_month p \<and> incentive_month p \<le> int (length ls)") auto
  then have total: "\<exists>c. incentive_total p ls = Inr c
      \<and> calculate_metrics p ls = Inr (gross_revenue p ls, c, gross_revenue p ls - c)"
    by (auto simp add: calculate_metrics_def Let_def)
  show ?thesis using out inside beyond total by blast
qed

theorem incentive_total_lookup_witness:
  "int (length [1000, 900, 630 :: real]) < incentive_month late_params
   \<and> incentive_total late_params [1000, 900, 630] = Inr 0
   \<and> 1 \<le> incentive_month example_params
   \<and> incentive_month example_params \<le> int (length [1000, 900, 630 :: real])
   \<and> incentive_total example_params [1000, 900, 630] = Inr (630 * 5)
   \<and> 1 \<le> duration late_params \<and> int (duration late_params) < incentive_month late_params
   \<and> incentive_total late_params (simulate_scenario late_params example_schedule True) = Inr 0"
proof -
  have a: "int (length [1000, 900, 630 :: real]) < incentive_month late_params"
    by (simp add: late_params_def example_params_def)
  have b: "1 \<le> incentive_month example_params
           \<and> incentive_month example_params \<le> int (length [1000, 900, 630 :: real])"
    by (simp add: example_params_def)
  have c: "1 \<le> duration late_params \<and> int (duration late_params) < incentive_month late_params"
    by (simp add: late_params_def example_params_def)
  have v: "[1000, 900, 630 :: real] ! nat (incentive_month example_params - 1)
             * incentive_cost example_params = 630 * 5"
    by (simp add: example_params_def)
  show ?thesis
    using incentive_total_lookup [of late_params "[1000, 900, 630]" example_schedule]
      incentive_total_lookup [of example_params "[1000, 900, 630]" example_schedule]
      a b c v
    by simp
qed

text \<open>
  C8. At a loop index at or beyond the length of a non-empty table, the simulator reads
  its rate from the mean and not from a row, and that rate is the arithmetic mean of the
  table's rates (their sum over their number). The entry of that month is the entry
  before it reduced by that rate (by the boosted mean, when the incentive effect falls
  on that month), and its value is the initial cohort times the factors of all months
  up to it, each from its row while the table lasts and from the mean after.
\<close>

theorem mean_fallback_used:
  assumes "df \<noteq> []" and "length df \<le> i" and "1 \<le> i" and "i < duration p"
  shows "fst (simulate_traced p df improved) = simulate_scenario p df improved
         \<and> snd (simulate_traced p df improved) ! (i - 1) = FromMean
         \<and> rate_of_source df FromMean = sum_list df / real (length df)
         \<and> rate_for df i = sum_list df / real (length df)
         \<and> simulate_scenario p df improved ! i
            = simulate_scenario p df improved ! (i - 1)
              * (1 - (if improved \<and> int i + 1 = incentive_month p
                      then sum_list df / real (length df)
                           * (1 - of_int (retention_boost p) / 100)
                      else sum_list df / real (length df)) / 100)
         \<and> simulate_scenario p df improved ! i
            = of_int (initial_learners p)
              * prod_list
                  (map (\<lambda>j. 1 - (if improved \<and> int j + 1 = incentive_month p
                                  then (if j < length df then df ! j
                                        else sum_list df / real (length df))
                                       * (1 - of_int (retention_boost p) / 100)
                                  else (if j < length df then df ! j
                                        else sum_list df / real (length df))) / 100)
                     [1..<Suc i])"
proof -
  have src: "snd (simulate_traced p df improved) ! (i - 1) = FromMean"
    using assms(2) snd_simulate_traced_nth [OF assms(3,4), of df improved]
    by (simp add: rate_source_for_def)
  have m: "rate_of_source df FromMean = sum_list df / real (length df)"
    by (simp add: rate_of_source_def mean_rate_def)
  have r: "rate_for df i = sum_list df / real (length df)"
    using assms(2) by (simp add: rate_for_def mean_rate_def)
  have "simulate_upto p df improved (duration p) ! i =
        simulate_upto p df improved (duration p) ! (i - 1)
        * (1 - effective_rate p df improved i / 100)"
    by (rule simulate_upto_nth_step [OF assms(3,4)])
  then have step: "simulate_scenario p df improved ! i
            = simulate_scenario p df improved ! (i - 1)
              * (1 - (if improved \<and> int i + 1 = incentive_month p
                      then sum_list df / real (length df)
                           * (1 - of_int (retention_boost p) / 100)
                      else sum_list df / real (length df)) / 100)"
    using r by (simp add: simulate_scenario_def effective_rate_def Let_def)
  have e: "effective_rate p df improved j
           = (if improved \<and> int j + 1 = incentive_month p
              then (if j < length df then df ! j else sum_list df / real (length df))
                   * (1 - of_int (retention_boost p) / 100)
              else (if j < length df then df ! j else sum_list df / real (length df)))" for j
    by (simp add: effective_rate_def rate_for_def mean_rate_def Let_def)
  have closed: "simulate_scenario p df improved ! i
            = of_int (initial_learners p)
              * prod_list
                  (map (\<lambda>j. 1 - (if improved \<and> int j + 1 = incentive_month p
                                  then (if j < length df then df ! j
                                        else sum_list df / real (length df))
                                       * (1 - of_int (retention_boost p) / 100)
                                  else (if j < length df then df ! j
                                        else sum_list df / real (length df))) / 100)
                     [1..<Suc i])"
    using simulate_scenario_closed [OF assms(4), of df improved] by (simp only: e)
  show ?thesis
    using fst_simulate_traced src m r step closed by (intro conjI)
qed

theorem mean_fallback_used_witness:
  "partial_schedule \<noteq> [] \<and> length partial_schedule \<le> 2 \<and> (1::nat) \<le> 2
   \<and> 2 < duration example_params
   \<and> snd (simulate_traced example_params partial_schedule False) ! (2 - 1) = FromMean
   \<and> rate_for partial_schedule 2 = 20
   \<and> simulate_scenario example_params partial_schedule False ! 2 = 560"
proof -
  have h: "partial_schedule \<noteq> []" "length partial_schedule \<le> 2" "(1::nat) \<le> 2"
    "2 < duration example_params"
    by (simp_all add: partial_schedule_def example_params_def)
  have m: "sum_list partial_schedule / real (length partial_schedule) = 20"
    by (simp add: partial_schedule_def)
  note t = mean_fallback_used [OF h, of False]
  note src = t [THEN conjunct2, THEN conjunct1]
  note rate = t [THEN conjunct2, THEN conjunct2, THEN conjunct2, THEN conjunct1]
  note closed = t [THEN conjunct2, THEN conjunct2, THEN conjunct2, THEN conjunct2,
      THEN conjunct2]
  have b: "rate_for partial_schedule 2 = 20"
    using rate m by simp
  have c: "simulate_scenario example_params partial_schedule False ! 2 = 560"
    using closed by (simp add: upt_1_3 partial_schedule_def example_params_def)
  show ?thesis using h src b c by (intro conjI)
qed

text \<open>
  C9. With the incentive in month 1, the trajectory with the incentive effect is the
  baseline trajectory, for every table and every boost (the loop starts at index 1,
  month 2), and the incentive total is the initial cohort times the incentive cost.
\<close>

theorem incentive_month_1:
  assumes "incentive_month p = 1"
  shows "simulate_scenario p df True = simulate_scenario p df False
         \<and> incentive_total p (simulate_scenario p df True)
            = Inr (of_int (initial_learners p) * incentive_cost p)"
proof -
  have len: "length (simulate_scenario p df True) = max 1 (duration p)"
    by (simp add: simulate_scenario_def length_simulate_upto)
  have hd: "simulate_scenario p df True ! 0 = of_int (initial_learners p)"
    by (simp add: simulate_scenario_def simulate_upto_nth_0)
  have "incentive_total p (simulate_scenario p df True)
        = Inr (simulate_scenario p df True ! 0 * incentive_cost p)"
    using assms len by (simp add: incentive_total_def list_get_def)
  then show ?thesis
    using hd assms by (simp add: simulate_scenario_def simulate_upto_month1)
qed

theorem incentive_month_1_witness:
  "incentive_month first_month_params = 1
   \<and> simulate_scenario first_month_params example_schedule True
      = simulate_scenario first_month_params example_schedule False
   \<and> incentive_total first_month_params
        (simulate_scenario first_month_params example_schedule True) = Inr 5000"
proof -
  have h: "incentive_month first_month_params = 1"
    by (simp add: first_month_params_def)
  have v: "real_of_int (initial_learners first_month_params)
           * incentive_cost first_month_params = 5000"
    by (simp add: first_month_params_def example_params_def)
  note t = incentive_month_1 [OF h, of example_schedule]
  have a: "simulate_scenario first_month_params example_schedule True
           = simulate_scenario first_month_params example_schedule False"
    using t by (rule conjunct1)
  have b: "incentive_total first_month_params
        (simulate_scenario first_month_params example_schedule True) = Inr 5000"
    using conjunct2 [OF t] v by (simp only:)
  show ?thesis
    using h a b by (intro conjI)
qed

text \<open>
  C10. The traced loop returns the trajectory of the simulator. For a table with at
  least \<open>duration\<close> rows its lookups are the rows 1 to \<open>duration - 1\<close>, one per
  iteration: none is the mean, every row index is within the table, and every entry of
  the trajectory is the initial cohort times factors taken from rows alone. A synthetic
  table has exactly \<open>duration\<close> rows, so no simulation of it reads the mean.
\<close>

theorem fallback_never_taken:
  "fst (simulate_traced p df improved) = simulate_scenario p df improved
   \<and> (duration p \<le> length df \<longrightarrow>
        snd (simulate_traced p df improved) = map FromRow [1..<duration p]
        \<and> FromMean \<notin> set (snd (simulate_traced p df improved))
        \<and> (\<forall>i. FromRow i \<in> set (snd (simulate_traced p df improved)) \<longrightarrow> i < length df)
        \<and> (\<forall>k < duration p.
              simulate_scenario p df improved ! k
              = of_int (initial_learners p)
                * prod_list
                    (map (\<lambda>j. 1 - (if improved \<and> int j + 1 = incentive_month p
                                    then df ! j * (1 - of_int (retention_boost p) / 100)
                                    else df ! j) / 100)
                       [1..<Suc k])))
   \<and> (\<forall>df'. load_data p None = Inr df' \<longrightarrow>
         length df' = duration p
         \<and> FromMean \<notin> set (snd (simulate_traced p df' improved)))"
proof -
  have tr: "snd (simulate_traced p d improved) = map FromRow [1..<duration p]"
    if "duration p \<le> length d" for d
    using that by (rule snd_simulate_traced_covered)
  have nomean: "FromMean \<notin> set (snd (simulate_traced p d improved))"
    if "duration p \<le> length d" for d
    using tr [OF that] by auto
  have inrange: "\<forall>i. FromRow i \<in> set (snd (simulate_traced p df improved)) \<longrightarrow> i < length df"
    if "duration p \<le> length df"
    using tr [OF that] that by auto
  have closed: "simulate_scenario p df improved ! k
              = of_int (initial_learners p)
                * prod_list
                    (map (\<lambda>j. 1 - (if improved \<and> int j + 1 = incentive_month p
                                    then df ! j * (1 - of_int (retention_boost p) / 100)
                                    else df ! j) / 100)
                       [1..<Suc k])"
    if d: "duration p \<le> length df" and k: "k < duration p" for k
  proof -
    have eq: "map (\<lambda>j. 1 - effective_rate p df improved j / 100) [1..<Suc k]
          = map (\<lambda>j. 1 - (if improved \<and> int j + 1 = incentive_month p
                          then df ! j * (1 - of_int (retention_boost p) / 100)
                          else df ! j) / 100) [1..<Suc k]"
      using d k by (intro map_cong) (auto simp add: effective_rate_def rate_for_def Let_def)
    show ?thesis
      unfolding eq [symmetric] by (rule simulate_scenario_closed [OF k])
  qed
  have synth: "length df' = duration p \<and> FromMean \<notin> set (snd (simulate_traced p df' improved))"
    if "load_data p None = Inr df'" for df'
    using load_data_length [OF that] nomean [of df'] by simp
  show ?thesis
    using fst_simulate_traced [of p df improved] tr nomean inrange closed synth by blast
qed

theorem fallback_never_taken_witness:
  "duration example_params \<le> length example_schedule
   \<and> snd (simulate_traced example_params example_schedule True) = [FromRow 1, FromRow 2]
   \<and> FromMean \<notin> set (snd (simulate_traced example_params example_schedule True))
   \<and> (2::nat) < duration example_params
   \<and> simulate_scenario example_params example_schedule True ! 2 = 684
   \<and> load_data example_params None = Inr [10, 30, 30]
   \<and> length [10, 30, 30 :: real] = duration example_params
   \<and> FromMean \<notin> set (snd (simulate_traced example_params [10, 30, 30] True))"
proof -
  have h: "duration example_params \<le> length example_schedule"
    by (simp add: example_params_def example_schedule_def)
  have k: "(2::nat) < duration example_params"
    by (simp add: example_params_def)
  have u: "[Suc 0..<duration example_params] = [1, 2]"
    by (simp add: upt_rec example_params_def)
  note t = fallback_never_taken [of example_params example_schedule True]
  note covered = t [THEN conjunct2, THEN conjunct1, THEN mp, OF h]
  note closed = covered [THEN conjunct2, THEN conjunct2, THEN conjunct2, THEN spec,
      THEN mp, OF k]
  note synth = t [THEN conjunct2, THEN conjunct2, THEN spec, THEN mp, OF example_synthetic]
  have a: "snd (simulate_traced example_params example_schedule True) = [FromRow 1, FromRow 2]"
    using covered [THEN conjunct1] by (simp add: u)
  have b: "FromMean \<notin> set (snd (simulate_traced example_params example_schedule True))"
    using covered by (rule conjunct2 [THEN conjunct1])
  have c: "simulate_scenario example_params example_schedule True ! 2 = 684"
    using closed by (simp add: upt_1_3 example_params_def example_schedule_def)
  show ?thesis
    using h a b k c example_synthetic synth [THEN conjunct1] synth [THEN conjunct2]
    by (intro conjI)
qed

end
